theory Spec2Isabelle
  imports Main "HOL-Library.Sublist" "HOL-Library.Multiset"
begin

section \<open>Values, exceptions, requests and responses\<close>

text \<open>
  The handlers of \<^verbatim>\<open>app.py\<close> work on dynamically typed Python values: the parsed
  JSON body of the request, the fields of stored documents and the JSON that is sent
  back. \<open>pyval\<close> is that universe. \<open>PTime\<close> is a timestamp of the document store
  (a point in time, counted as a natural number). Floating point numbers are left out.
\<close>

datatype pyval =
    PNone
  | PBool bool
  | PInt int
  | PStr string
  | PList "pyval list"
  | PDict "(string \<times> pyval) list"
  | PTime nat

text \<open>Python's truth value of a value, as \<^verbatim>\<open>if x\<close>, \<^verbatim>\<open>not x\<close> and \<^verbatim>\<open>x or y\<close> test it.\<close>

fun truthy :: "pyval \<Rightarrow> bool" where
  "truthy PNone = False"
| "truthy (PBool b) = b"
| "truthy (PInt i) = (i \<noteq> 0)"
| "truthy (PStr s) = (s \<noteq> [])"
| "truthy (PList xs) = (xs \<noteq> [])"
| "truthy (PDict kvs) = (kvs \<noteq> [])"
| "truthy (PTime t) = True"

text \<open>The name of a value's Python type, as it appears in the interpreter's messages.\<close>

fun type_name :: "pyval \<Rightarrow> string" where
  "type_name PNone = ''NoneType''"
| "type_name (PBool b) = ''bool''"
| "type_name (PInt i) = ''int''"
| "type_name (PStr s) = ''str''"
| "type_name (PList xs) = ''list''"
| "type_name (PDict kvs) = ''dict''"
| "type_name (PTime t) = ''DatetimeWithNanoseconds''"

text \<open>
  An exception, by its class; the text it carries is what \<^verbatim>\<open>str(e)\<close> gives.
  \<open>ServiceError\<close> stands for whatever an external service (identity provider,
  generative model, web framework) raises.
\<close>

datatype exn =
    AttributeError string
  | TypeError string
  | IndexError string
  | KeyError string
  | ValueError string
  | ServiceError string

fun str_exn :: "exn \<Rightarrow> string" where
  "str_exn (AttributeError m) = m"
| "str_exn (TypeError m) = m"
| "str_exn (IndexError m) = m"
| "str_exn (KeyError m) = m"
| "str_exn (ValueError m) = m"
| "str_exn (ServiceError m) = m"

definition no_attribute :: "pyval \<Rightarrow> string \<Rightarrow> exn" where
  "no_attribute v a =
     AttributeError
       ([CHR 0x27] @ type_name v @ [CHR 0x27] @ '' object has no attribute '' @
        [CHR 0x27] @ a @ [CHR 0x27])"

text \<open>
  \<^verbatim>\<open>d.get(k)\<close> and \<^verbatim>\<open>d.get(k, default)\<close> on a value: a dict answers, every other
  value of the universe has no attribute \<^verbatim>\<open>get\<close>.
\<close>

definition dict_get :: "(string \<times> pyval) list \<Rightarrow> string \<Rightarrow> pyval \<Rightarrow> pyval" where
  "dict_get kvs k dflt = (case map_of kvs k of None \<Rightarrow> dflt | Some v \<Rightarrow> v)"

fun py_get :: "pyval \<Rightarrow> string \<Rightarrow> pyval \<Rightarrow> exn + pyval" where
  "py_get (PDict kvs) k dflt = Inr (dict_get kvs k dflt)"
| "py_get v k dflt = Inl (no_attribute v ''get'')"

text \<open>
  What a route reads of the HTTP request: the \<^verbatim>\<open>Authorization\<close> header
  (\<^verbatim>\<open>request.headers.get('Authorization')\<close>, \<open>None\<close> when the header is absent) and
  \<^verbatim>\<open>request.json\<close>, which either raises (the framework rejects the body) or is the
  parsed body (\<open>PNone\<close> for Python's \<^verbatim>\<open>None\<close>).
\<close>

record request =
  authorization :: "string option"
  json_body :: "exn + pyval"

record response =
  status :: nat
  body :: pyval

definition jsonify :: "pyval \<Rightarrow> nat \<Rightarrow> response" where
  "jsonify v code = \<lparr>status = code, body = v\<rparr>"

section \<open>The auth gate\<close>

text \<open>
  Python's \<^verbatim>\<open>s.split(sep)\<close> for a non-empty separator: the pieces between the
  occurrences of \<open>sep\<close>, found from the left and not overlapping. An empty separator
  raises \<^verbatim>\<open>ValueError\<close>.
\<close>

function split_pieces :: "string \<Rightarrow> string \<Rightarrow> string list" where
  "split_pieces sep [] = [[]]"
| "split_pieces sep (c # cs) =
     (if sep \<noteq> [] \<and> prefix sep (c # cs)
      then [] # split_pieces sep (drop (length sep) (c # cs))
      else (case split_pieces sep cs of
              [] \<Rightarrow> [[c]]
            | p # ps \<Rightarrow> (c # p) # ps))"
  by pat_completeness auto
termination
  by (relation "measure (\<lambda>(sep, s). length s)") auto

definition str_split :: "string \<Rightarrow> string \<Rightarrow> exn + string list" where
  "str_split s sep =
     (if sep = [] then Inl (ValueError ''empty separator'') else Inr (split_pieces sep s))"

text \<open>\<^verbatim>\<open>xs[1]\<close>: the second element, or \<^verbatim>\<open>IndexError\<close>.\<close>

fun index1 :: "'a list \<Rightarrow> exn + 'a" where
  "index1 (x # y # ys) = Inr y"
| "index1 xs = Inl (IndexError ''list index out of range'')"

text \<open>
  The decoded identity token. The identity provider's contract is that the decoded
  claims of a verified token always carry the user id, so the dict is never empty and
  \<^verbatim>\<open>user['uid']\<close> never fails; the record states that contract as a type.
\<close>

record decoded_token =
  uid :: string

text \<open>
  \<^verbatim>\<open>request.headers.get('Authorization').split('Bearer ')[1]\<close>: the header may be
  absent (then \<^verbatim>\<open>None.split\<close> raises), and the split may have a single piece.
\<close>

definition bearer_token :: "request \<Rightarrow> exn + string" where
  "bearer_token req =
     (case authorization req of
        None \<Rightarrow> Inl (no_attribute PNone ''split'')
      | Some h \<Rightarrow>
          (case str_split h ''Bearer '' of
             Inl e \<Rightarrow> Inl e
           | Inr pieces \<Rightarrow> index1 pieces))"

text \<open>
  \<^verbatim>\<open>verify_token\<close>, with the identity provider's \<^verbatim>\<open>auth.verify_id_token\<close> as the
  parameter \<open>verify\<close>: every exception of the body is caught and answered by \<open>None\<close>.
\<close>

definition verify_token :: "(string \<Rightarrow> exn + decoded_token) \<Rightarrow> request \<Rightarrow> decoded_token option" where
  "verify_token verify req =
     (case bearer_token req of
        Inl e \<Rightarrow> None
      | Inr id_token \<Rightarrow>
          (case verify id_token of
             Inl e \<Rightarrow> None
           | Inr decoded \<Rightarrow> Some decoded))"

section \<open>The document store\<close>

text \<open>
  Modelled from the spec: the hosted document store (its client library is not part of
  the repository). The spec's data model is a hierarchy users \<rightarrow> sessions \<rightarrow> messages:
  a session document \<open>{name, created_at}\<close> is addressed by user id and session id, a
  message document \<open>{role, content, timestamp}\<close> lives in the message collection of
  one session of one user. A message collection exists independently of the session
  document above it.
\<close>

record session_doc =
  name :: "pyval option"
  created_at :: nat

record message =
  role :: pyval
  content :: pyval
  timestamp :: nat

record store =
  session_docs :: "((string \<times> string) \<times> session_doc) list"
  message_docs :: "((string \<times> string) \<times> message) list"

text \<open>
  Modelled from the spec: a document id is a string; the client refuses to build a
  document reference from any other value.
\<close>

fun document_id :: "pyval \<Rightarrow> exn + string" where
  "document_id (PStr s) = Inr s"
| "document_id v = Inl (TypeError ''document id must be a string'')"

text \<open>Modelled from the spec: the sessions of one user and the messages of one session.\<close>

definition sessions_of :: "store \<Rightarrow> string \<Rightarrow> (string \<times> session_doc) list" where
  "sessions_of st user_id =
     map (\<lambda>(k, d). (snd k, d)) (filter (\<lambda>(k, d). fst k = user_id) (session_docs st))"

definition messages_of :: "store \<Rightarrow> string \<Rightarrow> string \<Rightarrow> message list" where
  "messages_of st user_id session_id =
     map snd (filter (\<lambda>(k, m). k = (user_id, session_id)) (message_docs st))"

text \<open>
  Modelled from the spec: \<^verbatim>\<open>order_by(field)\<close> streams a collection by ascending field,
  \<^verbatim>\<open>direction=DESCENDING\<close> streams it in the opposite order, \<^verbatim>\<open>limit(n)\<close> keeps the
  first \<open>n\<close> documents of the stream. Documents with equal field values come in the
  order in which they were written when ascending, and in the opposite order when
  descending (the store breaks such ties by document id, in the direction of the query;
  the ids of messages are generated and play no other part).
\<close>

definition order_by :: "('a \<Rightarrow> nat) \<Rightarrow> 'a list \<Rightarrow> 'a list" where
  "order_by field docs = sort_key field docs"

definition order_by_descending :: "('a \<Rightarrow> nat) \<Rightarrow> 'a list \<Rightarrow> 'a list" where
  "order_by_descending field docs = rev (sort_key field docs)"

definition limit :: "nat \<Rightarrow> 'a list \<Rightarrow> 'a list" where
  "limit n docs = take n docs"

text \<open>
  Modelled from the spec: \<^verbatim>\<open>set\<close> writes the document under its key (replacing a
  document already there), \<^verbatim>\<open>delete\<close> removes the document under the key and nothing
  else, \<^verbatim>\<open>add\<close> appends a new document to a collection.
\<close>

definition set_session :: "string \<times> string \<Rightarrow> session_doc \<Rightarrow> store \<Rightarrow> store" where
  "set_session k d st =
     st\<lparr>session_docs := filter (\<lambda>(k', d'). k' \<noteq> k) (session_docs st) @ [(k, d)]\<rparr>"

definition remove_session :: "string \<times> string \<Rightarrow> store \<Rightarrow> store" where
  "remove_session k st = st\<lparr>session_docs := filter (\<lambda>(k', d'). k' \<noteq> k) (session_docs st)\<rparr>"

definition insert_message :: "string \<times> string \<Rightarrow> message \<Rightarrow> store \<Rightarrow> store" where
  "insert_message k m st = st\<lparr>message_docs := message_docs st @ [(k, m)]\<rparr>"

text \<open>\<^verbatim>\<open>doc.to_dict()\<close> of a message document.\<close>

definition to_dict :: "message \<Rightarrow> pyval" where
  "to_dict m =
     PDict [(''role'', role m), (''content'', content m), (''timestamp'', PTime (timestamp m))]"

section \<open>The generative model\<close>

text \<open>One turn of the conversation sent to the model: \<^verbatim>\<open>{"role": r, "parts": ps}\<close>.\<close>

datatype turn = Turn (turn_role: string) (parts: "pyval list")

text \<open>
  What \<^verbatim>\<open>model.generate_content\<close> returns, in the two shapes the handler provides for:
  a response object, whose \<^verbatim>\<open>text\<close> attribute either raises when read or has a value,
  and a plain dict (which has no such attribute).
\<close>

datatype gen_response =
    Response_object "exn + pyval"
  | Response_dict "(string \<times> pyval) list"

text \<open>
  The value of \<^verbatim>\<open>ai_message\<close>: a value of the universe, or the response object
  itself (which is neither a dict nor a document value).
\<close>

datatype reply = Val pyval | Obj

section \<open>The environment and the world\<close>

text \<open>
  The external collaborators, as parameters: the identity provider, the generative
  model, the store's server clock (the value \<^verbatim>\<open>SERVER_TIMESTAMP\<close> resolves to) and the
  store's generator of document ids, and the wall clock already formatted by
  \<^verbatim>\<open>strftime("%Y-%m-%d %H:%M")\<close> in UTC. The last three are indexed by the number of
  external calls logged so far, so that two reads need not agree.
\<close>

record env =
  verify_id_token :: "string \<Rightarrow> exn + decoded_token"
  generate_content :: "turn list \<Rightarrow> exn + gen_response"
  server_timestamp :: "nat \<Rightarrow> nat"
  auto_id :: "nat \<Rightarrow> string"
  utc_now :: "nat \<Rightarrow> string"

text \<open>The calls a handler makes to the store and to the model, in the order made.\<close>

datatype event =
    Query_sessions string
  | Set_session string string session_doc
  | Query_messages string string
  | Delete_session string string
  | Add_message string string message
  | Query_history string string
  | Generate_content "turn list"

record world =
  db :: store
  log :: "event list"

definition logged :: "event \<Rightarrow> world \<Rightarrow> world" where
  "logged ev w = w\<lparr>log := log w @ [ev]\<rparr>"

section \<open>The system instructions\<close>

definition CREATOR_NOTE :: string where
  "CREATOR_NOTE = ''Creator: Syed Gohar Hussain.''"

definition coding_coach_prompt :: string where
  "coding_coach_prompt =
     CREATOR_NOTE @ '' '' @
     ''You are CodeSensei, a 'Coding Coach'. Your goal is to help users learn by guiding them, '' @
     ''not giving direct answers. Use the Socratic method. Ask probing questions that lead them '' @
     ''to the solution. Provide small hints and conceptual explanations. Never write whole blocks of code. '' @
     ''Your tone is encouraging, wise, and patient, like a sensei.''"

definition debugging_assistant_prompt :: string where
  "debugging_assistant_prompt =
     CREATOR_NOTE @ '' '' @
     ''You are CodeSensei, a 'Debugging Assistant'. The user will provide code with errors. '' @
     ''Analyze it carefully. Do not fix the code for them. Instead, identify the errors and give hints '' @
     ''about where to look and what concepts might be involved. For example, say 'Look closely at your loop on line 5. '' @
     ''What happens on the final iteration?' or 'That error often relates to variable types. Have you checked the type of 'x'?'' @
     [CHR 0x27]"

definition general_prompt :: string where
  "general_prompt =
     CREATOR_NOTE @ '' '' @
     ''You are CodeSensei, a helpful AI assistant with a Socratic teaching style. For any general question, '' @
     ''your role is to foster understanding and critical thinking. Break down complex topics into smaller, '' @
     ''manageable parts. Ask questions to gauge the user's understanding before providing more information. '' @
     ''Guide them towards discovering the answer themselves.''"

definition SYSTEM_PROMPTS :: "(string \<times> string) list" where
  "SYSTEM_PROMPTS =
     [(''coding_coach'', coding_coach_prompt),
      (''debugging_assistant'', debugging_assistant_prompt),
      (''general'', general_prompt)]"

text \<open>
  \<^verbatim>\<open>SYSTEM_PROMPTS.get(mode, SYSTEM_PROMPTS["general"])\<close>. The keys are strings, so only
  a string can be found; a list or a dict is unhashable and the lookup raises; every
  other value is simply not a key.
\<close>

fun prompts_get :: "pyval \<Rightarrow> exn + string" where
  "prompts_get (PStr s) =
     Inr (case map_of SYSTEM_PROMPTS s of None \<Rightarrow> general_prompt | Some p \<Rightarrow> p)"
| "prompts_get (PList xs) = Inl (TypeError (''unhashable type: '' @ [CHR 0x27] @ ''list'' @ [CHR 0x27]))"
| "prompts_get (PDict kvs) = Inl (TypeError (''unhashable type: '' @ [CHR 0x27] @ ''dict'' @ [CHR 0x27]))"
| "prompts_get v = Inr general_prompt"

definition acknowledgement :: string where
  "acknowledgement = ''Understood. I will act as CodeSensei and guide the user.''"

section \<open>The routes\<close>

definition unauthorized :: response where
  "unauthorized = jsonify (PDict [(''error'', PStr ''Unauthorized'')]) 401"

text \<open>Python's \<^verbatim>\<open>x or y\<close>.\<close>

definition py_or :: "pyval \<Rightarrow> pyval \<Rightarrow> pyval" where
  "py_or x y = (if truthy x then x else y)"

text \<open>
  The \<^verbatim>\<open>except Exception as e\<close> clause of the four session routes: the exception's
  text under \<^verbatim>\<open>"error"\<close>, status 500.
\<close>

definition internal_error :: "exn \<Rightarrow> response" where
  "internal_error e = jsonify (PDict [(''error'', PStr (str_exn e))]) 500"

definition catching :: "(exn \<Rightarrow> response) \<Rightarrow> (exn + response) \<times> world \<Rightarrow> response \<times> world" where
  "catching handler r =
     (case r of
        (Inl e, w) \<Rightarrow> (handler e, w)
      | (Inr resp, w) \<Rightarrow> (resp, w))"

subsection \<open>\<^verbatim>\<open>GET /api/get_chat_sessions\<close>\<close>

definition session_entry :: "string \<times> session_doc \<Rightarrow> pyval" where
  "session_entry = (\<lambda>(doc_id, d).
     PDict [(''id'', PStr doc_id),
            (''name'', (case name d of
                          None \<Rightarrow> PStr (''Session '' @ take 5 doc_id)
                        | Some n \<Rightarrow> n))])"

definition get_chat_sessions_try :: "decoded_token \<Rightarrow> world \<Rightarrow> (exn + response) \<times> world" where
  "get_chat_sessions_try user w =
     (let user_id = uid user;
          docs = order_by_descending (created_at \<circ> snd) (sessions_of (db w) user_id);
          sessions = map session_entry docs
      in (Inr (jsonify (PList sessions) 200), logged (Query_sessions user_id) w))"

definition get_chat_sessions :: "env \<Rightarrow> request \<Rightarrow> world \<Rightarrow> response \<times> world" where
  "get_chat_sessions e req w =
     (case verify_token (verify_id_token e) req of
        None \<Rightarrow> (unauthorized, w)
      | Some user \<Rightarrow> catching internal_error (get_chat_sessions_try user w))"

subsection \<open>\<^verbatim>\<open>POST /api/create_session\<close>\<close>

definition create_session_try :: "env \<Rightarrow> decoded_token \<Rightarrow> request \<Rightarrow> world \<Rightarrow> (exn + response) \<times> world" where
  "create_session_try e user req w =
     (let user_id = uid user;
          timestamp = utc_now e (length (log w))
      in case json_body req of
           Inl ex \<Rightarrow> (Inl ex, w)
         | Inr j \<Rightarrow>
             (case py_get (py_or j (PDict [])) ''session_name'' PNone of
                Inl ex \<Rightarrow> (Inl ex, w)
              | Inr session_name \<Rightarrow>
                  (case (if truthy session_name then document_id session_name
                         else Inr (auto_id e (length (log w)))) of
                     Inl ex \<Rightarrow> (Inl ex, w)
                   | Inr doc_id \<Rightarrow>
                       (let stored_name = py_or session_name (PStr (''Chat - '' @ timestamp));
                            d = \<lparr>name = Some stored_name,
                                 created_at = server_timestamp e (length (log w))\<rparr>
                        in (Inr (jsonify (PDict [(''session_id'', PStr doc_id),
                                                 (''name'', stored_name)]) 200),
                            logged (Set_session user_id doc_id d)
                              (w\<lparr>db := set_session (user_id, doc_id) d (db w)\<rparr>))))))"

definition create_session :: "env \<Rightarrow> request \<Rightarrow> world \<Rightarrow> response \<times> world" where
  "create_session e req w =
     (case verify_token (verify_id_token e) req of
        None \<Rightarrow> (unauthorized, w)
      | Some user \<Rightarrow> catching internal_error (create_session_try e user req w))"

subsection \<open>\<^verbatim>\<open>GET /api/get_session_messages/<session_id>\<close>\<close>

definition get_session_messages_try :: "decoded_token \<Rightarrow> string \<Rightarrow> world \<Rightarrow> (exn + response) \<times> world" where
  "get_session_messages_try user session_id w =
     (let user_id = uid user;
          messages = map to_dict (order_by timestamp (messages_of (db w) user_id session_id))
      in (Inr (jsonify (PList messages) 200), logged (Query_messages user_id session_id) w))"

definition get_session_messages :: "env \<Rightarrow> string \<Rightarrow> request \<Rightarrow> world \<Rightarrow> response \<times> world" where
  "get_session_messages e session_id req w =
     (case verify_token (verify_id_token e) req of
        None \<Rightarrow> (unauthorized, w)
      | Some user \<Rightarrow> catching internal_error (get_session_messages_try user session_id w))"

subsection \<open>\<^verbatim>\<open>DELETE /api/delete_session/<session_id>\<close>\<close>

definition delete_session_try :: "decoded_token \<Rightarrow> string \<Rightarrow> world \<Rightarrow> (exn + response) \<times> world" where
  "delete_session_try user session_id w =
     (let user_id = uid user
      in (Inr (jsonify (PDict [(''success'', PBool True)]) 200),
          logged (Delete_session user_id session_id)
            (w\<lparr>db := remove_session (user_id, session_id) (db w)\<rparr>)))"

definition delete_session :: "env \<Rightarrow> string \<Rightarrow> request \<Rightarrow> world \<Rightarrow> response \<times> world" where
  "delete_session e session_id req w =
     (case verify_token (verify_id_token e) req of
        None \<Rightarrow> (unauthorized, w)
      | Some user \<Rightarrow> catching internal_error (delete_session_try user session_id w))"

subsection \<open>\<^verbatim>\<open>POST /api/chat\<close>\<close>

text \<open>
  \<^verbatim>\<open>messages_collection.add({'role': r, 'content': c, 'timestamp': SERVER_TIMESTAMP})\<close>.
\<close>

definition add_message :: "env \<Rightarrow> string \<Rightarrow> string \<Rightarrow> pyval \<Rightarrow> pyval \<Rightarrow> world \<Rightarrow> world" where
  "add_message e user_id session_id r c w =
     (let m = \<lparr>role = r, content = c, timestamp = server_timestamp e (length (log w))\<rparr>
      in logged (Add_message user_id session_id m)
           (w\<lparr>db := insert_message (user_id, session_id) m (db w)\<rparr>))"

text \<open>
  \<^verbatim>\<open>messages_collection.order_by('timestamp', direction=DESCENDING).limit(20).stream()\<close>.
\<close>

definition history_docs :: "string \<Rightarrow> string \<Rightarrow> world \<Rightarrow> message list \<times> world" where
  "history_docs user_id session_id w =
     (limit 20 (order_by_descending timestamp (messages_of (db w) user_id session_id)),
      logged (Query_history user_id session_id) w)"

text \<open>
  The loop over the fetched documents: each becomes a turn, with the stored role
  \<^verbatim>\<open>'assistant'\<close> turned into \<^verbatim>\<open>"model"\<close> and any other into \<^verbatim>\<open>'user'\<close>, and is put
  at the front of the history built so far (\<^verbatim>\<open>history.insert(0, ...)\<close>).
\<close>

definition history_turn :: "message \<Rightarrow> turn" where
  "history_turn msg =
     Turn (if role msg = PStr ''assistant'' then ''model'' else ''user'') [content msg]"

fun history_loop :: "message list \<Rightarrow> turn list \<Rightarrow> turn list" where
  "history_loop [] history = history"
| "history_loop (msg # docs) history = history_loop docs (history_turn msg # history)"

text \<open>
  \<^verbatim>\<open>getattr(response, 'text', None)\<close>: a missing attribute (an \<^verbatim>\<open>AttributeError\<close>)
  gives \<^verbatim>\<open>None\<close>; any other exception of the attribute read is raised.
\<close>

fun getattr_text :: "gen_response \<Rightarrow> exn + pyval" where
  "getattr_text (Response_object (Inl (AttributeError m))) = Inr PNone"
| "getattr_text (Response_object (Inl ex)) = Inl ex"
| "getattr_text (Response_object (Inr v)) = Inr v"
| "getattr_text (Response_dict kvs) = Inr PNone"

text \<open>\<^verbatim>\<open>text or response\<close>.\<close>

fun text_or_response :: "pyval \<Rightarrow> gen_response \<Rightarrow> reply" where
  "text_or_response txt (Response_object t) = (if truthy txt then Val txt else Obj)"
| "text_or_response txt (Response_dict kvs) = (if truthy txt then Val txt else Val (PDict kvs))"

text \<open>\<^verbatim>\<open>xs[0]\<close> on a value.\<close>

fun subscript0 :: "pyval \<Rightarrow> exn + pyval" where
  "subscript0 (PList []) = Inl (IndexError ''list index out of range'')"
| "subscript0 (PList (x # xs)) = Inr x"
| "subscript0 (PStr []) = Inl (IndexError ''string index out of range'')"
| "subscript0 (PStr (c # cs)) = Inr (PStr [c])"
| "subscript0 (PDict kvs) = Inl (KeyError ''0'')"
| "subscript0 v =
     Inl (TypeError ([CHR 0x27] @ type_name v @ [CHR 0x27] @ '' object is not subscriptable''))"

text \<open>
  \<^verbatim>\<open>if isinstance(ai_message, dict) and 'candidates' in ai_message:\<close>
  \<^verbatim>\<open>ai_message = ai_message['candidates'][0].get('content', '')\<close>.
\<close>

fun recover_candidates :: "reply \<Rightarrow> exn + reply" where
  "recover_candidates (Val (PDict kvs)) =
     (case map_of kvs ''candidates'' of
        None \<Rightarrow> Inr (Val (PDict kvs))
      | Some cands \<Rightarrow>
          (case subscript0 cands of
             Inl ex \<Rightarrow> Inl ex
           | Inr c \<Rightarrow>
               (case py_get c ''content'' (PStr []) of
                  Inl ex \<Rightarrow> Inl ex
                | Inr v \<Rightarrow> Inr (Val v))))"
| "recover_candidates r = Inr r"

definition ai_message_of :: "gen_response \<Rightarrow> exn + reply" where
  "ai_message_of resp =
     (case getattr_text resp of
        Inl ex \<Rightarrow> Inl ex
      | Inr txt \<Rightarrow> recover_candidates (text_or_response txt resp))"

text \<open>
  Modelled from the spec: the store keeps document values only; it refuses the
  response object.
\<close>

fun document_value :: "reply \<Rightarrow> exn + pyval" where
  "document_value (Val v) = Inr v"
| "document_value Obj = Inl (TypeError ''cannot convert to a document value'')"

text \<open>The body of the \<^verbatim>\<open>try\<close> block of \<^verbatim>\<open>chat\<close>.\<close>

definition chat_try :: "env \<Rightarrow> string \<Rightarrow> pyval \<Rightarrow> pyval \<Rightarrow> pyval \<Rightarrow> world \<Rightarrow> (exn + response) \<times> world" where
  "chat_try e user_id user_message mode session_id w =
     (case document_id session_id of
        Inl ex \<Rightarrow> (Inl ex, w)
      | Inr sid \<Rightarrow>
          (let w1 = add_message e user_id sid (PStr ''user'') user_message w;
               (docs, w2) = history_docs user_id sid w1;
               history = history_loop docs []
           in case prompts_get mode of
                Inl ex \<Rightarrow> (Inl ex, w2)
              | Inr system_instruction \<Rightarrow>
                  (let conversation =
                         [Turn ''user'' [PStr system_instruction],
                          Turn ''model'' [PStr acknowledgement]] @ history;
                       w3 = logged (Generate_content conversation) w2
                   in case generate_content e conversation of
                        Inl ex \<Rightarrow> (Inl ex, w3)
                      | Inr resp \<Rightarrow>
                          (case ai_message_of resp of
                             Inl ex \<Rightarrow> (Inl ex, w3)
                           | Inr ai_message \<Rightarrow>
                               (case document_value ai_message of
                                  Inl ex \<Rightarrow> (Inl ex, w3)
                                | Inr v \<Rightarrow>
                                    (Inr (jsonify (PDict [(''response'', v)]) 200),
                                     add_message e user_id sid (PStr ''assistant'') v w3))))))"

definition chat_error :: "exn \<Rightarrow> response" where
  "chat_error ex =
     jsonify (PDict [(''error'', PStr ''An error occurred.''), (''details'', PStr (str_exn ex))]) 500"

definition required :: response where
  "required = jsonify (PDict [(''error'', PStr ''Message and session_id are required'')]) 400"

text \<open>
  \<^verbatim>\<open>chat\<close>. The body is read and its three fields are taken before the \<^verbatim>\<open>try\<close>
  block: an exception raised there leaves the route function (\<open>Inl\<close>).
\<close>

definition chat :: "env \<Rightarrow> request \<Rightarrow> world \<Rightarrow> (exn + response) \<times> world" where
  "chat e req w =
     (case verify_token (verify_id_token e) req of
        None \<Rightarrow> (Inr unauthorized, w)
      | Some user \<Rightarrow>
          (case json_body req of
             Inl ex \<Rightarrow> (Inl ex, w)
           | Inr data \<Rightarrow>
               (case py_get data ''message'' PNone of
                  Inl ex \<Rightarrow> (Inl ex, w)
                | Inr user_message \<Rightarrow>
                    (case py_get data ''mode'' (PStr ''general'') of
                       Inl ex \<Rightarrow> (Inl ex, w)
                     | Inr mode \<Rightarrow>
                         (case py_get data ''session_id'' PNone of
                            Inl ex \<Rightarrow> (Inl ex, w)
                          | Inr session_id \<Rightarrow>
                              (let user_id = uid user
                               in if \<not> truthy user_message \<or> \<not> truthy session_id
                                  then (Inr required, w)
                                  else (case catching chat_error
                                               (chat_try e user_id user_message mode session_id w) of
                                          (resp, w') \<Rightarrow> (Inr resp, w'))))))))"

subsection \<open>The five routes together\<close>

datatype route =
    Get_chat_sessions
  | Create_session
  | Get_session_messages string
  | Delete_session_route string
  | Chat

definition returned :: "response \<times> world \<Rightarrow> (exn + response) \<times> world" where
  "returned r = (Inr (fst r), snd r)"

fun handle :: "env \<Rightarrow> route \<Rightarrow> request \<Rightarrow> world \<Rightarrow> (exn + response) \<times> world" where
  "handle e Get_chat_sessions req w = returned (get_chat_sessions e req w)"
| "handle e Create_session req w = returned (create_session e req w)"
| "handle e (Get_session_messages session_id) req w = returned (get_session_messages e session_id req w)"
| "handle e (Delete_session_route session_id) req w = returned (delete_session e session_id req w)"
| "handle e Chat req w = chat e req w"

section \<open>The claim about modes, in the spec's words\<close>

text \<open>
  The values Python can use as dictionary keys among those a JSON body can carry:
  everything but a list and a dict.
\<close>

fun hashable :: "pyval \<Rightarrow> bool" where
  "hashable (PList xs) = False"
| "hashable (PDict kvs) = False"
| "hashable v = True"


text \<open>
  The instruction the spec promises for a mode: the one keyed by the mode for the three
  enumerated modes, the general one for every other value (and so for the default
  \<^verbatim>\<open>"general"\<close> that stands in for an absent mode).
\<close>

definition instruction_for :: "pyval \<Rightarrow> string" where
  "instruction_for mode =
     (if mode = PStr ''coding_coach'' then coding_coach_prompt
      else if mode = PStr ''debugging_assistant'' then debugging_assistant_prompt
      else general_prompt)"


section \<open>Concrete inputs\<close>

text \<open>
  A small environment, two worlds and a few requests, on which the theorems below are
  instantiated: the identity provider accepts the single token \<open>good-token\<close> of user
  \<open>alice\<close>, the model answers with a fixed text (or, in \<open>failing_model_env\<close>, raises),
  the server clock counts the calls.
\<close>

definition example_env :: env where
  "example_env =
     \<lparr>verify_id_token = (\<lambda>tok. if tok = ''good-token'' then Inr \<lparr>uid = ''alice''\<rparr>
                               else Inl (ValueError ''Illegal ID token provided'')),
      generate_content = (\<lambda>conv. Inr (Response_object (Inr (PStr ''What have you tried so far?'')))),
      server_timestamp = (\<lambda>n. 100 + n),
      auto_id = (\<lambda>n. ''auto-id''),
      utc_now = (\<lambda>n. ''2025-01-01 10:00'')\<rparr>"

definition failing_model_env :: env where
  "failing_model_env =
     example_env\<lparr>generate_content := (\<lambda>conv. Inl (ServiceError ''quota exceeded''))\<rparr>"

definition empty_world :: world where
  "empty_world = \<lparr>db = \<lparr>session_docs = [], message_docs = []\<rparr>, log = []\<rparr>"

definition example_world :: world where
  "example_world =
     \<lparr>db = \<lparr>session_docs =
              [((''alice'', ''s1''), \<lparr>name = Some (PStr ''Loops''), created_at = 10\<rparr>),
               ((''bob'', ''s9''), \<lparr>name = Some (PStr ''Pointers''), created_at = 15\<rparr>),
               ((''alice'', ''s2''), \<lparr>name = None, created_at = 20\<rparr>)],
            message_docs =
              [((''alice'', ''s1''), \<lparr>role = PStr ''assistant'', content = PStr ''Hello'', timestamp = 7\<rparr>),
               ((''bob'', ''s9''), \<lparr>role = PStr ''user'', content = PStr ''secret'', timestamp = 5\<rparr>),
               ((''alice'', ''s1''), \<lparr>role = PStr ''user'', content = PStr ''Hi'', timestamp = 3\<rparr>)]\<rparr>,
      log = []\<rparr>"

definition good_header :: "string option" where
  "good_header = Some ''Bearer good-token''"

definition get_request :: request where
  "get_request = \<lparr>authorization = good_header, json_body = Inr PNone\<rparr>"


definition chat_request :: "(string \<times> pyval) list \<Rightarrow> request" where
  "chat_request kvs = \<lparr>authorization = good_header, json_body = Inr (PDict kvs)\<rparr>"

definition hi_request :: request where
  "hi_request = chat_request [(''message'', PStr ''Hi again''), (''session_id'', PStr ''s1'')]"

definition mode_request :: "string \<Rightarrow> request" where
  "mode_request m =
     chat_request [(''message'', PStr ''Why does my loop never end?''),
                   (''session_id'', PStr ''s3''), (''mode'', PStr m)]"


section \<open>Lemmas\<close>

subsection \<open>The auth gate\<close>

text \<open>
  A header without the separator is split into a single piece, a header with it into at
  least two: the bearer token exists exactly when \<^verbatim>\<open>'Bearer '\<close> occurs in the header.
\<close>

lemma split_pieces_single:
  "\<not> (\<exists>a b. s = a @ sep @ b) \<Longrightarrow> split_pieces sep s = [s]"
proof (induction sep s rule: split_pieces.induct)
  case (1 sep)
  show ?case by simp
next
  case (2 sep c cs)
  have np: "\<not> prefix sep (c # cs)"
  proof
    assume "prefix sep (c # cs)"
    then obtain b where "c # cs = sep @ b" by (auto simp: prefix_def)
    then have "c # cs = [] @ sep @ b" by simp
    with "2.prems" show False by blast
  qed
  have "\<not> (\<exists>a b. cs = a @ sep @ b)"
  proof
    assume "\<exists>a b. cs = a @ sep @ b"
    then obtain a b where "cs = a @ sep @ b" by blast
    then have "c # cs = (c # a) @ sep @ b" by simp
    with "2.prems" show False by blast
  qed
  with 2 np have "split_pieces sep cs = [cs]" by simp
  with np show ?case by simp
qed

lemma split_pieces_nonempty: "split_pieces sep s \<noteq> []"
  by (induction sep s rule: split_pieces.induct) (auto split: list.splits)

lemma split_pieces_occurrence:
  "sep \<noteq> [] \<Longrightarrow> s = a @ sep @ b \<Longrightarrow> 2 \<le> length (split_pieces sep s)"
proof (induction sep s arbitrary: a rule: split_pieces.induct)
  case (1 sep)
  then show ?case by simp
next
  case (2 sep c cs)
  show ?case
  proof (cases "prefix sep (c # cs)")
    case True
    have "split_pieces sep (drop (length sep) (c # cs)) \<noteq> []" by (rule split_pieces_nonempty)
    then have "1 \<le> length (split_pieces sep (drop (length sep) (c # cs)))"
      by (cases "split_pieces sep (drop (length sep) (c # cs))") auto
    moreover have "split_pieces sep (c # cs) = [] # split_pieces sep (drop (length sep) (c # cs))"
      using True \<open>sep \<noteq> []\<close> by simp
    ultimately show ?thesis by simp
  next
    case False
    with "2.prems" obtain a' where a: "a = c # a'"
      by (cases a) (auto simp: prefix_def)
    with "2.prems" have "cs = a' @ sep @ b" by simp
    with 2 False have "2 \<le> length (split_pieces sep cs)" by simp
    with False show ?thesis by (auto split: list.splits)
  qed
qed

lemma index1_Inr_iff: "(\<exists>y. index1 xs = Inr y) \<longleftrightarrow> 2 \<le> length xs"
  by (cases xs rule: index1.cases) auto

lemma bearer_token_absent: "authorization req = None \<Longrightarrow> \<exists>ex. bearer_token req = Inl ex"
  by (simp add: bearer_token_def)

lemma bearer_token_no_bearer:
  "authorization req = Some h \<Longrightarrow> \<not> (\<exists>a b. h = a @ ''Bearer '' @ b) \<Longrightarrow>
   \<exists>ex. bearer_token req = Inl ex"
  using split_pieces_single [of h "''Bearer ''"]
  by (simp add: bearer_token_def str_split_def)

lemma verify_token_None_handle:
  assumes "verify_token (verify_id_token e) req = None"
  shows "handle e r req w = (Inr unauthorized, w)"
  using assms
  by (cases r)
     (simp_all add: returned_def get_chat_sessions_def create_session_def
        get_session_messages_def delete_session_def chat_def)

lemma verify_token_good_header:
  "verify_token (verify_id_token example_env) \<lparr>authorization = good_header, json_body = b\<rparr>
     = Some \<lparr>uid = ''alice''\<rparr>"
  by (simp add: verify_token_def bearer_token_def str_split_def good_header_def example_env_def)


subsection \<open>The store\<close>


lemma map_of_filter_key:
  "map_of (filter (\<lambda>(k', d'). k' \<noteq> k) xs) k' = (if k' = k then None else map_of xs k')"
  by (induction xs) auto


lemma logged_simps:
  "log (logged ev w) = log w @ [ev]"
  "db (logged ev w) = db w"
  by (simp_all add: logged_def)

lemma add_message_simps:
  "log (add_message e u sid r c w) =
     log w @ [Add_message u sid \<lparr>role = r, content = c, timestamp = server_timestamp e (length (log w))\<rparr>]"
  "message_docs (db (add_message e u sid r c w)) =
     message_docs (db w) @ [((u, sid), \<lparr>role = r, content = c, timestamp = server_timestamp e (length (log w))\<rparr>)]"
  "session_docs (db (add_message e u sid r c w)) = session_docs (db w)"
  by (simp_all add: add_message_def Let_def logged_def insert_message_def)

lemma messages_of_add_message:
  "messages_of (db (add_message e u sid r c w)) u sid =
     messages_of (db w) u sid @
       [\<lparr>role = r, content = c, timestamp = server_timestamp e (length (log w))\<rparr>]"
  by (simp add: messages_of_def add_message_simps)


subsection \<open>The session routes\<close>



subsection \<open>The chat route\<close>

text \<open>The loop that inserts at the front reverses the fetched documents.\<close>

lemma history_loop_rev: "history_loop docs history = rev (map history_turn docs) @ history"
  by (induction docs arbitrary: history) auto



text \<open>The lookup of the system instruction against the spec's words.\<close>

lemma prompts_get_hashable:
  "hashable mode \<Longrightarrow> prompts_get mode = Inr (instruction_for mode)"
  by (cases mode) (auto simp: instruction_for_def SYSTEM_PROMPTS_def)

lemma prompts_get_unhashable:
  "\<not> hashable mode \<Longrightarrow> \<exists>ex. prompts_get mode = Inl ex"
  by (cases mode) auto


text \<open>
  With an object body and a truthy message and session id, \<^verbatim>\<open>chat\<close> enters its
  \<^verbatim>\<open>try\<close> block; with a string session id the block runs as follows.
\<close>

lemma chat_reaches_try:
  assumes "verify_token (verify_id_token e) req = Some user"
      and "json_body req = Inr (PDict kvs)"
      and "truthy (dict_get kvs ''message'' PNone)"
      and "truthy (dict_get kvs ''session_id'' PNone)"
  shows "chat e req w =
           (Inr (fst (catching chat_error
                   (chat_try e (uid user) (dict_get kvs ''message'' PNone)
                      (dict_get kvs ''mode'' (PStr ''general''))
                      (dict_get kvs ''session_id'' PNone) w))),
            snd (catching chat_error
                   (chat_try e (uid user) (dict_get kvs ''message'' PNone)
                      (dict_get kvs ''mode'' (PStr ''general''))
                      (dict_get kvs ''session_id'' PNone) w)))"
  using assms by (simp add: chat_def Let_def split: prod.splits)

lemma chat_try_cases:
  fixes e u msg mode sid w
  defines "w1 \<equiv> add_message e u sid (PStr ''user'') msg w"
  defines "w2 \<equiv> logged (Query_history u sid) w1"
  defines "conv \<equiv> \<lambda>instr. [Turn ''user'' [PStr instr], Turn ''model'' [PStr acknowledgement]] @
                     history_loop (limit 20 (order_by_descending timestamp (messages_of (db w1) u sid))) []"
  shows "chat_try e u msg mode (PStr sid) w =
     (case prompts_get mode of
        Inl ex \<Rightarrow> (Inl ex, w2)
      | Inr instr \<Rightarrow>
          (case generate_content e (conv instr) of
             Inl ex \<Rightarrow> (Inl ex, logged (Generate_content (conv instr)) w2)
           | Inr resp \<Rightarrow>
               (case ai_message_of resp of
                  Inl ex \<Rightarrow> (Inl ex, logged (Generate_content (conv instr)) w2)
                | Inr Obj \<Rightarrow> (Inl (TypeError ''cannot convert to a document value''),
                              logged (Generate_content (conv instr)) w2)
                | Inr (Val v) \<Rightarrow>
                    (Inr (jsonify (PDict [(''response'', v)]) 200),
                     add_message e u sid (PStr ''assistant'') v
                       (logged (Generate_content (conv instr)) w2)))))"
  unfolding w1_def w2_def conv_def
  by (simp add: chat_try_def Let_def history_docs_def split: sum.splits reply.splits)

lemma chat_log_with_instruction:
  fixes w :: world
  assumes "verify_token (verify_id_token e) req = Some user"
      and "json_body req = Inr (PDict kvs)"
      and "truthy (dict_get kvs ''message'' PNone)"
      and "dict_get kvs ''session_id'' PNone = PStr sid"
      and "sid \<noteq> []"
      and "prompts_get (dict_get kvs ''mode'' (PStr ''general'')) = Inr system_instruction"
  defines "user_msg \<equiv> \<lparr>role = PStr ''user'', content = dict_get kvs ''message'' PNone,
                        timestamp = server_timestamp e (length (log w))\<rparr>"
  shows "\<exists>rest. log (snd (chat e req w)) = log w @
                   [Add_message (uid user) sid user_msg,
                    Query_history (uid user) sid,
                    Generate_content
                      ([Turn ''user'' [PStr system_instruction],
                        Turn ''model'' [PStr acknowledgement]] @
                       map history_turn
                         (rev (take 20 (rev (sort_key timestamp
                            (messages_of (db w) (uid user) sid @ [user_msg]))))))] @ rest
               \<and> (\<forall>c. Generate_content c \<notin> set rest)"
proof -
  let ?msg = "dict_get kvs ''message'' PNone"
  let ?mode = "dict_get kvs ''mode'' (PStr ''general'')"
  let ?r = "chat_try e (uid user) ?msg ?mode (PStr sid) w"
  have c: "chat e req w = (Inr (fst (catching chat_error ?r)), snd (catching chat_error ?r))"
    using chat_reaches_try [OF assms(1-3)] assms(4,5) by simp
  show ?thesis
    unfolding c user_msg_def
    using assms(6)
    by (auto simp: chat_try_cases catching_def add_message_simps logged_simps
          messages_of_add_message history_loop_rev limit_def order_by_descending_def rev_map
          split: sum.splits reply.splits)
qed


text \<open>
  What lies outside the claims' conditions: a body that is not a JSON object, or that
  the framework rejects, makes \<^verbatim>\<open>chat\<close> raise before its \<^verbatim>\<open>try\<close> block (the
  sibling \<^verbatim>\<open>create_session\<close> reads the body inside it, as \<^verbatim>\<open>request.json or {}\<close>); an
  unhashable mode makes the instruction lookup raise after the user message has been
  stored; and the model is called in no other case than the one \<open>chat_log_with_instruction\<close>
  describes.
\<close>

lemma chat_body_not_an_object:
  assumes "verify_token (verify_id_token e) req = Some user"
      and "json_body req = Inr v"
      and "\<forall>kvs. v \<noteq> PDict kvs"
  shows "chat e req w = (Inl (no_attribute v ''get''), w)"
  using assms by (cases v) (simp_all add: chat_def)

lemma chat_body_rejected:
  assumes "verify_token (verify_id_token e) req = Some user"
      and "json_body req = Inl ex"
  shows "chat e req w = (Inl ex, w)"
  using assms by (simp add: chat_def)

lemma chat_unhashable_mode:
  assumes "verify_token (verify_id_token e) req = Some user"
      and "json_body req = Inr (PDict kvs)"
      and "truthy (dict_get kvs ''message'' PNone)"
      and "dict_get kvs ''session_id'' PNone = PStr sid"
      and "sid \<noteq> []"
      and "\<not> hashable (dict_get kvs ''mode'' (PStr ''general''))"
  shows "\<exists>resp w' m. chat e req w = (Inr resp, w') \<and> status resp = 500
           \<and> log w' = log w @ [Add_message (uid user) sid m, Query_history (uid user) sid]"
proof -
  let ?msg = "dict_get kvs ''message'' PNone"
  let ?mode = "dict_get kvs ''mode'' (PStr ''general'')"
  let ?r = "chat_try e (uid user) ?msg ?mode (PStr sid) w"
  have c: "chat e req w = (Inr (fst (catching chat_error ?r)), snd (catching chat_error ?r))"
    using chat_reaches_try [OF assms(1-3)] assms(4,5) by simp
  from prompts_get_unhashable [OF assms(6)] obtain ex where "prompts_get ?mode = Inl ex" ..
  then show ?thesis
    unfolding c
    by (simp add: chat_try_cases catching_def chat_error_def jsonify_def add_message_simps logged_simps)
qed

lemma chat_unchanged_without_try:
  assumes "\<not> (\<exists>user kvs. verify_token (verify_id_token e) req = Some user
              \<and> json_body req = Inr (PDict kvs)
              \<and> truthy (dict_get kvs ''message'' PNone)
              \<and> truthy (dict_get kvs ''session_id'' PNone))"
  shows "snd (chat e req w) = w"
proof (cases "verify_token (verify_id_token e) req")
  case None
  then show ?thesis by (simp add: chat_def)
next
  case (Some user)
  show ?thesis
  proof (cases "json_body req")
    case (Inl ex)
    with Some show ?thesis by (simp add: chat_def)
  next
    case (Inr v)
    show ?thesis
    proof (cases "\<exists>kvs. v = PDict kvs")
      case False
      then have "\<forall>kvs. v \<noteq> PDict kvs" by blast
      from chat_body_not_an_object [OF Some Inr this] show ?thesis by simp
    next
      case True
      then obtain kvs where "v = PDict kvs" ..
      with Some Inr assms show ?thesis
        by (auto simp: chat_def Let_def)
    qed
  qed
qed

lemma no_model_call_otherwise:
  assumes "\<not> (\<exists>user kvs sid instr. verify_token (verify_id_token e) req = Some user
              \<and> json_body req = Inr (PDict kvs)
              \<and> truthy (dict_get kvs ''message'' PNone)
              \<and> dict_get kvs ''session_id'' PNone = PStr sid \<and> sid \<noteq> []
              \<and> prompts_get (dict_get kvs ''mode'' (PStr ''general'')) = Inr instr)"
  shows "Generate_content c \<notin> set (drop (length (log w)) (log (snd (chat e req w))))"
proof (cases "\<exists>user kvs. verify_token (verify_id_token e) req = Some user
              \<and> json_body req = Inr (PDict kvs)
              \<and> truthy (dict_get kvs ''message'' PNone)
              \<and> truthy (dict_get kvs ''session_id'' PNone)")
  case False
  then have "snd (chat e req w) = w" by (rule chat_unchanged_without_try)
  then show ?thesis by simp
next
  case True
  then obtain user kvs where t:
    "verify_token (verify_id_token e) req = Some user"
    "json_body req = Inr (PDict kvs)"
    "truthy (dict_get kvs ''message'' PNone)"
    "truthy (dict_get kvs ''session_id'' PNone)"
    by blast
  let ?r = "chat_try e (uid user) (dict_get kvs ''message'' PNone)
              (dict_get kvs ''mode'' (PStr ''general'')) (dict_get kvs ''session_id'' PNone) w"
  have c: "snd (chat e req w) = snd (catching chat_error ?r)"
    using chat_reaches_try [OF t] by simp
  show ?thesis
  proof (cases "\<exists>sid. dict_get kvs ''session_id'' PNone = PStr sid")
    case False
    then have "\<exists>ex. document_id (dict_get kvs ''session_id'' PNone) = Inl ex"
      by (cases "dict_get kvs ''session_id'' PNone") auto
    then show ?thesis
      unfolding c by (auto simp: chat_try_def catching_def)
  next
    case True
    then obtain sid where s: "dict_get kvs ''session_id'' PNone = PStr sid" ..
    with t(4) have "sid \<noteq> []" by simp
    with assms t s have "\<not> (\<exists>instr. prompts_get (dict_get kvs ''mode'' (PStr ''general'')) = Inr instr)"
      by blast
    then obtain ex where "prompts_get (dict_get kvs ''mode'' (PStr ''general'')) = Inl ex"
      by (cases "prompts_get (dict_get kvs ''mode'' (PStr ''general''))") auto
    then show ?thesis
      unfolding c s
      by (simp add: chat_try_cases catching_def add_message_simps logged_simps)
  qed
qed


subsection \<open>The routes on the concrete inputs\<close>

lemma example_env_simps:
  "generate_content example_env conv = Inr (Response_object (Inr (PStr ''What have you tried so far?'')))"
  "server_timestamp example_env n = 100 + n"
  "auto_id example_env n = ''auto-id''"
  "utc_now example_env n = ''2025-01-01 10:00''"
  by (simp_all add: example_env_def)

lemma failing_model_env_simps:
  "verify_id_token failing_model_env = verify_id_token example_env"
  "generate_content failing_model_env conv = Inl (ServiceError ''quota exceeded'')"
  "server_timestamp failing_model_env n = 100 + n"
  by (simp_all add: failing_model_env_def example_env_def)

lemma log_example_world: "log example_world = []"
  by (simp add: example_world_def)

lemma messages_of_example_world:
  "messages_of (db example_world) ''alice'' ''s1'' =
     [\<lparr>role = PStr ''assistant'', content = PStr ''Hello'', timestamp = 7\<rparr>,
      \<lparr>role = PStr ''user'', content = PStr ''Hi'', timestamp = 3\<rparr>]"
  by (simp add: messages_of_def example_world_def)

lemmas chat_eval_defs =
  chat_def chat_try_def catching_def chat_error_def jsonify_def Let_def add_message_def
  history_docs_def logged_def insert_message_def messages_of_def limit_def
  order_by_descending_def history_turn_def ai_message_of_def dict_get_def
  chat_request_def verify_token_good_header

lemma hi_request_facts:
  "verify_token (verify_id_token example_env) hi_request = Some \<lparr>uid = ''alice''\<rparr>"
  "json_body hi_request = Inr (PDict [(''message'', PStr ''Hi again''), (''session_id'', PStr ''s1'')])"
  "truthy (dict_get [(''message'', PStr ''Hi again''), (''session_id'', PStr ''s1'')] ''message'' PNone)"
  "dict_get [(''message'', PStr ''Hi again''), (''session_id'', PStr ''s1'')] ''session_id'' PNone = PStr ''s1''"
  "''s1'' \<noteq> []"
  "dict_get [(''message'', PStr ''Hi again''), (''session_id'', PStr ''s1'')] ''mode'' (PStr ''general'')
     = PStr ''general''"
  by (simp_all add: hi_request_def chat_request_def verify_token_good_header dict_get_def)

lemma mode_request_facts:
  "verify_token (verify_id_token example_env) (mode_request m) = Some \<lparr>uid = ''alice''\<rparr>"
  "json_body (mode_request m) =
     Inr (PDict [(''message'', PStr ''Why does my loop never end?''),
                 (''session_id'', PStr ''s3''), (''mode'', PStr m)])"
  "truthy (dict_get [(''message'', PStr ''Why does my loop never end?''),
                     (''session_id'', PStr ''s3''), (''mode'', PStr m)] ''message'' PNone)"
  "dict_get [(''message'', PStr ''Why does my loop never end?''),
             (''session_id'', PStr ''s3''), (''mode'', PStr m)] ''session_id'' PNone = PStr ''s3''"
  "''s3'' \<noteq> []"
  "hashable (dict_get [(''message'', PStr ''Why does my loop never end?''),
                       (''session_id'', PStr ''s3''), (''mode'', PStr m)] ''mode'' (PStr ''general''))"
  by (simp_all add: mode_request_def chat_request_def verify_token_good_header dict_get_def)

lemma chat_example_fails:
  "chat failing_model_env hi_request empty_world =
     (Inr \<lparr>status = 500,
           body = PDict [(''error'', PStr ''An error occurred.''),
                         (''details'', PStr ''quota exceeded'')]\<rparr>,
      \<lparr>db = \<lparr>session_docs = [],
             message_docs = [((''alice'', ''s1''),
                              \<lparr>role = PStr ''user'', content = PStr ''Hi again'', timestamp = 100\<rparr>)]\<rparr>,
       log = [Add_message ''alice'' ''s1''
                \<lparr>role = PStr ''user'', content = PStr ''Hi again'', timestamp = 100\<rparr>,
              Query_history ''alice'' ''s1'',
              Generate_content
                [Turn ''user'' [PStr general_prompt],
                 Turn ''model'' [PStr acknowledgement],
                 Turn ''user'' [PStr ''Hi again'']]]\<rparr>)"
  by (simp add: hi_request_def chat_eval_defs empty_world_def failing_model_env_simps
        SYSTEM_PROMPTS_def)


lemma chat_mode_request:
  "log (snd (chat example_env (mode_request m) empty_world)) =
     [Add_message ''alice'' ''s3''
        \<lparr>role = PStr ''user'', content = PStr ''Why does my loop never end?'', timestamp = 100\<rparr>,
      Query_history ''alice'' ''s3'',
      Generate_content
        [Turn ''user'' [PStr (instruction_for (PStr m))],
         Turn ''model'' [PStr acknowledgement],
         Turn ''user'' [PStr ''Why does my loop never end?'']],
      Add_message ''alice'' ''s3''
        \<lparr>role = PStr ''assistant'', content = PStr ''What have you tried so far?'',
         timestamp = 103\<rparr>]"
proof -
  have p: "prompts_get (PStr m) = Inr (instruction_for (PStr m))"
    by (rule prompts_get_hashable) simp
  show ?thesis
    by (simp add: mode_request_def chat_eval_defs empty_world_def example_env_simps p
          del: prompts_get.simps)
qed

lemma get_session_messages_example:
  "fst (get_session_messages example_env ''s1'' get_request example_world) =
     \<lparr>status = 200,
      body = PList [PDict [(''role'', PStr ''user''), (''content'', PStr ''Hi''), (''timestamp'', PTime 3)],
                    PDict [(''role'', PStr ''assistant''), (''content'', PStr ''Hello''), (''timestamp'', PTime 7)]]\<rparr>"
  by (simp add: get_session_messages_def get_session_messages_try_def catching_def jsonify_def
        Let_def get_request_def verify_token_good_header messages_of_def example_world_def
        order_by_def to_dict_def)

lemma get_chat_sessions_example:
  "fst (get_chat_sessions example_env get_request example_world) =
     \<lparr>status = 200,
      body = PList [PDict [(''id'', PStr ''s2''), (''name'', PStr ''Session s2'')],
                    PDict [(''id'', PStr ''s1''), (''name'', PStr ''Loops'')]]\<rparr>"
  by (simp add: get_chat_sessions_def get_chat_sessions_try_def catching_def jsonify_def
        Let_def get_request_def verify_token_good_header sessions_of_def example_world_def
        order_by_descending_def session_entry_def)

subsection \<open>What holds when the body and the mode have the expected shape\<close>

text \<open>
  With a JSON object as body, a falsy message or session id is answered by the guard
  with 400 before anything is written; with a mode that can be looked up, the
  conversation starts with the instruction the spec names for the mode.
\<close>

lemma chat_requires_message_and_session_id:
  assumes "verify_token (verify_id_token e) req = Some user"
      and "json_body req = Inr (PDict kvs)"
      and "\<not> truthy (dict_get kvs ''message'' PNone)
           \<or> \<not> truthy (dict_get kvs ''session_id'' PNone)"
  shows "chat e req w =
           (Inr \<lparr>status = 400,
                 body = PDict [(''error'', PStr ''Message and session_id are required'')]\<rparr>, w)"
  using assms by (auto simp: chat_def required_def jsonify_def Let_def)

lemma system_instruction_by_mode:
  fixes w :: world
  assumes "verify_token (verify_id_token e) req = Some user"
      and "json_body req = Inr (PDict kvs)"
      and "truthy (dict_get kvs ''message'' PNone)"
      and "dict_get kvs ''session_id'' PNone = PStr sid"
      and "sid \<noteq> []"
      and "hashable (dict_get kvs ''mode'' (PStr ''general''))"
  defines "mode \<equiv> dict_get kvs ''mode'' (PStr ''general'')"
  shows "(\<exists>first_write history rest.
            log (snd (chat e req w)) = log w @
              [first_write,
               Query_history (uid user) sid,
               Generate_content
                 ([Turn ''user'' [PStr (instruction_for mode)],
                   Turn ''model'' [PStr acknowledgement]] @ history)] @ rest
          \<and> (\<forall>c. Generate_content c \<notin> set rest))
       \<and> (mode = PStr ''coding_coach'' \<longrightarrow> instruction_for mode = coding_coach_prompt)
       \<and> (mode = PStr ''debugging_assistant'' \<longrightarrow> instruction_for mode = debugging_assistant_prompt)
       \<and> (mode = PStr ''general'' \<longrightarrow> instruction_for mode = general_prompt)
       \<and> (mode \<notin> {PStr ''coding_coach'', PStr ''debugging_assistant'', PStr ''general''} \<longrightarrow>
             instruction_for mode = general_prompt)
       \<and> (map_of kvs ''mode'' = None \<longrightarrow> instruction_for mode = general_prompt)"
proof -
  have p: "prompts_get (dict_get kvs ''mode'' (PStr ''general'')) = Inr (instruction_for mode)"
    unfolding mode_def using assms(6) by (rule prompts_get_hashable)
  from chat_log_with_instruction [OF assms(1-5) p, of w]
  have "\<exists>first_write history rest.
            log (snd (chat e req w)) = log w @
              [first_write,
               Query_history (uid user) sid,
               Generate_content
                 ([Turn ''user'' [PStr (instruction_for mode)],
                   Turn ''model'' [PStr acknowledgement]] @ history)] @ rest
          \<and> (\<forall>c. Generate_content c \<notin> set rest)"
    by blast
  moreover have "map_of kvs ''mode'' = None \<longrightarrow> instruction_for mode = general_prompt"
    by (simp add: mode_def dict_get_def instruction_for_def)
  ultimately show ?thesis
    by (simp add: instruction_for_def)
qed

subsection \<open>The answer of each route, case by case\<close>



subsection \<open>The outcomes of a chat request that enters the try block\<close>

lemma chat_outcomes:
  fixes w :: world
  assumes "verify_token (verify_id_token e) req = Some user"
      and "json_body req = Inr (PDict kvs)"
      and "truthy (dict_get kvs ''message'' PNone)"
      and "dict_get kvs ''session_id'' PNone = PStr sid"
      and "sid \<noteq> []"
  defines "mode \<equiv> dict_get kvs ''mode'' (PStr ''general'')"
  defines "user_msg \<equiv> \<lparr>role = PStr ''user'', content = dict_get kvs ''message'' PNone,
                        timestamp = server_timestamp e (length (log w))\<rparr>"
  defines "conv \<equiv> \<lambda>instr.
             [Turn ''user'' [PStr instr],
              Turn ''model'' [PStr ''Understood. I will act as CodeSensei and guide the user.'']] @
             map (\<lambda>m. Turn (if role m = PStr ''assistant'' then ''model'' else ''user'') [content m])
               (rev (take 20 (rev (sort_key timestamp
                  (messages_of (db w) (uid user) sid @ [user_msg])))))"
  defines "failed \<equiv> \<lambda>ex calls.
               fst (chat e req w) =
                 Inr \<lparr>status = 500,
                      body = PDict [(''error'', PStr ''An error occurred.''),
                                    (''details'', PStr (str_exn ex))]\<rparr>
             \<and> log (snd (chat e req w)) =
                 log w @ [Add_message (uid user) sid user_msg, Query_history (uid user) sid] @ calls
             \<and> message_docs (db (snd (chat e req w))) =
                 message_docs (db w) @ [((uid user, sid), user_msg)]
             \<and> session_docs (db (snd (chat e req w))) = session_docs (db w)"
  shows "(\<forall>instr gen reply.
            prompts_get mode = Inr instr \<and> generate_content e (conv instr) = Inr gen
            \<and> ai_message_of gen = Inr (Val reply) \<longrightarrow>
              fst (chat e req w) = Inr \<lparr>status = 200, body = PDict [(''response'', reply)]\<rparr>
            \<and> log (snd (chat e req w)) = log w @
                 [Add_message (uid user) sid user_msg,
                  Query_history (uid user) sid,
                  Generate_content (conv instr),
                  Add_message (uid user) sid
                    \<lparr>role = PStr ''assistant'', content = reply,
                     timestamp = server_timestamp e (length (log w) + 3)\<rparr>]
            \<and> message_docs (db (snd (chat e req w))) = message_docs (db w) @
                 [((uid user, sid), user_msg),
                  ((uid user, sid),
                   \<lparr>role = PStr ''assistant'', content = reply,
                    timestamp = server_timestamp e (length (log w) + 3)\<rparr>)]
            \<and> session_docs (db (snd (chat e req w))) = session_docs (db w))
       \<and> (\<forall>t. t \<noteq> [] \<longrightarrow> ai_message_of (Response_object (Inr (PStr t))) = Inr (Val (PStr t)))
       \<and> (\<forall>ex. prompts_get mode = Inl ex \<longrightarrow> failed ex [])
       \<and> (\<forall>instr ex. prompts_get mode = Inr instr \<and> generate_content e (conv instr) = Inl ex \<longrightarrow>
              failed ex [Generate_content (conv instr)])
       \<and> (\<forall>instr gen ex. prompts_get mode = Inr instr \<and> generate_content e (conv instr) = Inr gen
              \<and> ai_message_of gen = Inl ex \<longrightarrow> failed ex [Generate_content (conv instr)])
       \<and> (\<forall>instr gen. prompts_get mode = Inr instr \<and> generate_content e (conv instr) = Inr gen
              \<and> ai_message_of gen = Inr Obj \<longrightarrow>
              failed (TypeError ''cannot convert to a document value'') [Generate_content (conv instr)])"
proof -
  let ?msg = "dict_get kvs ''message'' PNone"
  let ?r = "chat_try e (uid user) ?msg mode (PStr sid) w"
  have c: "chat e req w = (Inr (fst (catching chat_error ?r)), snd (catching chat_error ?r))"
    unfolding mode_def using chat_reaches_try [OF assms(1-3)] assms(4,5) by simp
  have h: "history_loop (limit 20 (order_by_descending timestamp
             (messages_of (db (add_message e (uid user) sid (PStr ''user'') ?msg w)) (uid user) sid))) []
           = map (\<lambda>m. Turn (if role m = PStr ''assistant'' then ''model'' else ''user'') [content m])
               (rev (take 20 (rev (sort_key timestamp
                  (messages_of (db w) (uid user) sid @ [user_msg])))))"
    unfolding user_msg_def
    by (simp add: messages_of_add_message history_loop_rev limit_def order_by_descending_def
          rev_map history_turn_def)
  have cv: "\<And>instr. [Turn ''user'' [PStr instr], Turn ''model'' [PStr acknowledgement]] @
             history_loop (limit 20 (order_by_descending timestamp
               (messages_of (db (add_message e (uid user) sid (PStr ''user'') ?msg w)) (uid user) sid))) []
           = conv instr"
    unfolding conv_def h by (simp add: acknowledgement_def)
  have tr: "?r =
     (case prompts_get mode of
        Inl ex \<Rightarrow> (Inl ex, logged (Query_history (uid user) sid)
                            (add_message e (uid user) sid (PStr ''user'') ?msg w))
      | Inr instr \<Rightarrow>
          (case generate_content e (conv instr) of
             Inl ex \<Rightarrow> (Inl ex, logged (Generate_content (conv instr))
                            (logged (Query_history (uid user) sid)
                              (add_message e (uid user) sid (PStr ''user'') ?msg w)))
           | Inr resp \<Rightarrow>
               (case ai_message_of resp of
                  Inl ex \<Rightarrow> (Inl ex, logged (Generate_content (conv instr))
                            (logged (Query_history (uid user) sid)
                              (add_message e (uid user) sid (PStr ''user'') ?msg w)))
                | Inr Obj \<Rightarrow> (Inl (TypeError ''cannot convert to a document value''),
                              logged (Generate_content (conv instr))
                            (logged (Query_history (uid user) sid)
                              (add_message e (uid user) sid (PStr ''user'') ?msg w)))
                | Inr (Val v) \<Rightarrow>
                    (Inr (jsonify (PDict [(''response'', v)]) 200),
                     add_message e (uid user) sid (PStr ''assistant'') v
                       (logged (Generate_content (conv instr))
                            (logged (Query_history (uid user) sid)
                              (add_message e (uid user) sid (PStr ''user'') ?msg w)))))))"
    unfolding chat_try_cases cv ..
  have t: "\<forall>t. t \<noteq> [] \<longrightarrow> ai_message_of (Response_object (Inr (PStr t))) = Inr (Val (PStr t))"
    by (simp add: ai_message_of_def)
  show ?thesis
    unfolding c failed_def tr
    using t
    by (auto simp: catching_def chat_error_def jsonify_def add_message_simps logged_simps
          numeral_3_eq_3 user_msg_def)
qed

section \<open>Claims\<close>

text \<open>
  C1, as amended. For an authenticated \<^verbatim>\<open>POST /api/chat\<close> whose body is a JSON object
  with a non-empty message and a non-empty string session id, the handler first stores
  one message with role \<^verbatim>\<open>user\<close> and the request's message as content. If the
  instruction lookup succeeds, the model call returns and a reply is recovered from what
  it returned (a non-empty \<^verbatim>\<open>text\<close> is such a reply), the answer is 200 with the
  reply, the handler has then stored one message with role \<^verbatim>\<open>assistant\<close> and the reply
  as content, and its calls were the user write, the history query, the model call and
  the assistant write, in that order; so it is, in particular, for a request without a
  mode when the model returns a non-empty text. If the instruction lookup raises, or the model
  call raises, or the recovery of the reply raises, or what is recovered is not a
  document value, the answer is 500 with the exception's text under \<^verbatim>\<open>"details"\<close>
  and the user message is the only message stored. Session documents are untouched in
  every case.
\<close>

theorem chat_persists_user_then_assistant:
  fixes w :: world
  assumes "verify_token (verify_id_token e) req = Some user"
      and "json_body req = Inr (PDict kvs)"
      and "truthy (dict_get kvs ''message'' PNone)"
      and "dict_get kvs ''session_id'' PNone = PStr sid"
      and "sid \<noteq> []"
  defines "mode \<equiv> dict_get kvs ''mode'' (PStr ''general'')"
  defines "user_msg \<equiv> \<lparr>role = PStr ''user'', content = dict_get kvs ''message'' PNone,
                        timestamp = server_timestamp e (length (log w))\<rparr>"
  defines "conv \<equiv> \<lambda>instr.
             [Turn ''user'' [PStr instr],
              Turn ''model'' [PStr ''Understood. I will act as CodeSensei and guide the user.'']] @
             map (\<lambda>m. Turn (if role m = PStr ''assistant'' then ''model'' else ''user'') [content m])
               (rev (take 20 (rev (sort_key timestamp
                  (messages_of (db w) (uid user) sid @ [user_msg])))))"
  defines "failed \<equiv> \<lambda>ex calls.
               fst (chat e req w) =
                 Inr \<lparr>status = 500,
                      body = PDict [(''error'', PStr ''An error occurred.''),
                                    (''details'', PStr (str_exn ex))]\<rparr>
             \<and> log (snd (chat e req w)) =
                 log w @ [Add_message (uid user) sid user_msg, Query_history (uid user) sid] @ calls
             \<and> message_docs (db (snd (chat e req w))) =
                 message_docs (db w) @ [((uid user, sid), user_msg)]
             \<and> session_docs (db (snd (chat e req w))) = session_docs (db w)"
  shows "(\<forall>t. map_of kvs ''mode'' = None \<and> t \<noteq> []
              \<and> (\<forall>c. generate_content e c = Inr (Response_object (Inr (PStr t)))) \<longrightarrow>
              fst (chat e req w) = Inr \<lparr>status = 200, body = PDict [(''response'', PStr t)]\<rparr>
            \<and> message_docs (db (snd (chat e req w))) = message_docs (db w) @
                 [((uid user, sid), user_msg),
                  ((uid user, sid),
                   \<lparr>role = PStr ''assistant'', content = PStr t,
                    timestamp = server_timestamp e (length (log w) + 3)\<rparr>)])
       \<and> (\<forall>instr gen reply.
            prompts_get mode = Inr instr \<and> generate_content e (conv instr) = Inr gen
            \<and> ai_message_of gen = Inr (Val reply) \<longrightarrow>
              fst (chat e req w) = Inr \<lparr>status = 200, body = PDict [(''response'', reply)]\<rparr>
            \<and> log (snd (chat e req w)) = log w @
                 [Add_message (uid user) sid user_msg,
                  Query_history (uid user) sid,
                  Generate_content (conv instr),
                  Add_message (uid user) sid
                    \<lparr>role = PStr ''assistant'', content = reply,
                     timestamp = server_timestamp e (length (log w) + 3)\<rparr>]
            \<and> message_docs (db (snd (chat e req w))) = message_docs (db w) @
                 [((uid user, sid), user_msg),
                  ((uid user, sid),
                   \<lparr>role = PStr ''assistant'', content = reply,
                    timestamp = server_timestamp e (length (log w) + 3)\<rparr>)]
            \<and> session_docs (db (snd (chat e req w))) = session_docs (db w))
       \<and> (\<forall>t. t \<noteq> [] \<longrightarrow> ai_message_of (Response_object (Inr (PStr t))) = Inr (Val (PStr t)))
       \<and> (\<forall>ex. prompts_get mode = Inl ex \<longrightarrow> failed ex [])
       \<and> (\<forall>instr ex. prompts_get mode = Inr instr \<and> generate_content e (conv instr) = Inl ex \<longrightarrow>
              failed ex [Generate_content (conv instr)])
       \<and> (\<forall>instr gen ex. prompts_get mode = Inr instr \<and> generate_content e (conv instr) = Inr gen
              \<and> ai_message_of gen = Inl ex \<longrightarrow> failed ex [Generate_content (conv instr)])
       \<and> (\<forall>instr gen. prompts_get mode = Inr instr \<and> generate_content e (conv instr) = Inr gen
              \<and> ai_message_of gen = Inr Obj \<longrightarrow>
              failed (TypeError ''cannot convert to a document value'') [Generate_content (conv instr)])"
proof -
  note o = chat_outcomes [OF assms(1-5), of w]
  have s: "\<And>instr gen reply.
            prompts_get mode = Inr instr \<Longrightarrow> generate_content e (conv instr) = Inr gen
            \<Longrightarrow> ai_message_of gen = Inr (Val reply) \<Longrightarrow>
              fst (chat e req w) = Inr \<lparr>status = 200, body = PDict [(''response'', reply)]\<rparr>
            \<and> message_docs (db (snd (chat e req w))) = message_docs (db w) @
                 [((uid user, sid), user_msg),
                  ((uid user, sid),
                   \<lparr>role = PStr ''assistant'', content = reply,
                    timestamp = server_timestamp e (length (log w) + 3)\<rparr>)]"
    using o [THEN conjunct1] unfolding mode_def user_msg_def conv_def by blast
  have pin: "\<forall>t. map_of kvs ''mode'' = None \<and> t \<noteq> []
              \<and> (\<forall>c. generate_content e c = Inr (Response_object (Inr (PStr t)))) \<longrightarrow>
              fst (chat e req w) = Inr \<lparr>status = 200, body = PDict [(''response'', PStr t)]\<rparr>
            \<and> message_docs (db (snd (chat e req w))) = message_docs (db w) @
                 [((uid user, sid), user_msg),
                  ((uid user, sid),
                   \<lparr>role = PStr ''assistant'', content = PStr t,
                    timestamp = server_timestamp e (length (log w) + 3)\<rparr>)]"
  proof (intro allI impI)
    fix t
    assume a: "map_of kvs ''mode'' = None \<and> t \<noteq> []
              \<and> (\<forall>c. generate_content e c = Inr (Response_object (Inr (PStr t))))"
    then have p: "prompts_get mode = Inr general_prompt"
      by (simp add: mode_def dict_get_def SYSTEM_PROMPTS_def)
    from a have g: "generate_content e (conv general_prompt) = Inr (Response_object (Inr (PStr t)))"
      by blast
    from a have m: "ai_message_of (Response_object (Inr (PStr t))) = Inr (Val (PStr t))"
      by (simp add: ai_message_of_def)
    from s [OF p g m]
    show "fst (chat e req w) = Inr \<lparr>status = 200, body = PDict [(''response'', PStr t)]\<rparr>
            \<and> message_docs (db (snd (chat e req w))) = message_docs (db w) @
                 [((uid user, sid), user_msg),
                  ((uid user, sid),
                   \<lparr>role = PStr ''assistant'', content = PStr t,
                    timestamp = server_timestamp e (length (log w) + 3)\<rparr>)]" .
  qed
  show ?thesis
    using pin o unfolding mode_def user_msg_def conv_def failed_def
    by (rule conjI)
qed

theorem chat_persists_user_then_assistant_witness:
  "verify_token (verify_id_token example_env) hi_request = Some \<lparr>uid = ''alice''\<rparr>
   \<and> fst (chat example_env hi_request example_world) =
       Inr \<lparr>status = 200, body = PDict [(''response'', PStr ''What have you tried so far?'')]\<rparr>
   \<and> message_docs (db (snd (chat example_env hi_request example_world))) =
       message_docs (db example_world) @
         [((''alice'', ''s1''),
           \<lparr>role = PStr ''user'', content = PStr ''Hi again'', timestamp = 100\<rparr>),
          ((''alice'', ''s1''),
           \<lparr>role = PStr ''assistant'', content = PStr ''What have you tried so far?'',
            timestamp = 103\<rparr>)]
   \<and> fst (chat failing_model_env hi_request empty_world) =
       Inr \<lparr>status = 500,
            body = PDict [(''error'', PStr ''An error occurred.''),
                          (''details'', PStr ''quota exceeded'')]\<rparr>
   \<and> message_docs (db (snd (chat failing_model_env hi_request empty_world))) =
       [((''alice'', ''s1''),
         \<lparr>role = PStr ''user'', content = PStr ''Hi again'', timestamp = 100\<rparr>)]"
proof -
  have f: "verify_token (verify_id_token failing_model_env) hi_request = Some \<lparr>uid = ''alice''\<rparr>"
    by (simp add: failing_model_env_simps hi_request_facts)
  have p: "prompts_get (dict_get [(''message'', PStr ''Hi again''), (''session_id'', PStr ''s1'')]
             ''mode'' (PStr ''general'')) = Inr general_prompt"
    by (simp add: dict_get_def SYSTEM_PROMPTS_def)
  have a: "ai_message_of (Response_object (Inr (PStr ''What have you tried so far?''))) =
             Inr (Val (PStr ''What have you tried so far?''))"
    by (simp add: ai_message_of_def)
  note ok = chat_persists_user_then_assistant [OF hi_request_facts(1-5), of example_world,
              THEN conjunct2, THEN conjunct1, rule_format,
              OF conjI [OF p conjI [OF example_env_simps(1) a]]]
  note ko = chat_persists_user_then_assistant [OF f hi_request_facts(2-5), of empty_world,
              THEN conjunct2, THEN conjunct2, THEN conjunct2, THEN conjunct2, THEN conjunct1,
              rule_format, OF conjI [OF p failing_model_env_simps(2)]]
  have 1: "fst (chat example_env hi_request example_world) =
       Inr \<lparr>status = 200, body = PDict [(''response'', PStr ''What have you tried so far?'')]\<rparr>"
    using ok by simp
  have 2: "message_docs (db (snd (chat example_env hi_request example_world))) =
       message_docs (db example_world) @
         [((''alice'', ''s1''),
           \<lparr>role = PStr ''user'', content = PStr ''Hi again'', timestamp = 100\<rparr>),
          ((''alice'', ''s1''),
           \<lparr>role = PStr ''assistant'', content = PStr ''What have you tried so far?'',
            timestamp = 103\<rparr>)]"
    using ok by (simp add: example_env_simps log_example_world dict_get_def)
  have 3: "fst (chat failing_model_env hi_request empty_world) =
       Inr \<lparr>status = 500,
            body = PDict [(''error'', PStr ''An error occurred.''),
                          (''details'', PStr ''quota exceeded'')]\<rparr>"
    using ko by simp
  have 4: "message_docs (db (snd (chat failing_model_env hi_request empty_world))) =
       [((''alice'', ''s1''),
         \<lparr>role = PStr ''user'', content = PStr ''Hi again'', timestamp = 100\<rparr>)]"
    using ko by (simp add: failing_model_env_simps empty_world_def dict_get_def)
  from hi_request_facts(1) 1 2 3 4 show ?thesis by blast
qed

text \<open>
  C1 as stated fails: in an environment whose model call raises, an authenticated
  request with a non-empty message and session id is answered with 500, and the user
  message is the only message stored.
\<close>

theorem chat_model_failure_keeps_only_the_user_message:
  "fst (chat failing_model_env
          \<lparr>authorization = Some ''Bearer good-token'',
           json_body = Inr (PDict [(''message'', PStr ''Hi again''), (''session_id'', PStr ''s1'')])\<rparr>
          empty_world) =
     Inr \<lparr>status = 500,
          body = PDict [(''error'', PStr ''An error occurred.''),
                        (''details'', PStr ''quota exceeded'')]\<rparr>
   \<and> message_docs (db (snd (chat failing_model_env
          \<lparr>authorization = Some ''Bearer good-token'',
           json_body = Inr (PDict [(''message'', PStr ''Hi again''), (''session_id'', PStr ''s1'')])\<rparr>
          empty_world))) =
     [((''alice'', ''s1''), \<lparr>role = PStr ''user'', content = PStr ''Hi again'', timestamp = 100\<rparr>)]"
  using chat_example_fails
  by (simp add: hi_request_def chat_request_def good_header_def)


text \<open>
  C2. On each of the five routes, a request whose \<^verbatim>\<open>Authorization\<close> header is missing,
  or has no \<^verbatim>\<open>'Bearer '\<close> in it, or whose bearer token the identity provider refuses,
  is answered with status 401 and body \<^verbatim>\<open>{"error": "Unauthorized"}\<close>; the world is
  returned as it was, so the store is untouched and neither a store call nor a model
  call has been logged.
\<close>

theorem unauthorized_on_every_route:
  assumes "authorization req = None
           \<or> (\<exists>h. authorization req = Some h \<and> \<not> (\<exists>a b. h = a @ ''Bearer '' @ b))
           \<or> (\<exists>tok ex. bearer_token req = Inr tok \<and> verify_id_token e tok = Inl ex)"
  shows "handle e r req w =
           (Inr \<lparr>status = 401, body = PDict [(''error'', PStr ''Unauthorized'')]\<rparr>, w)"
proof -
  have "verify_token (verify_id_token e) req = None"
    using assms bearer_token_absent [of req] bearer_token_no_bearer [of req]
    by (auto simp: verify_token_def)
  then show ?thesis
    by (simp add: verify_token_None_handle unauthorized_def jsonify_def)
qed

theorem unauthorized_on_every_route_witness:
  "handle example_env Chat \<lparr>authorization = None, json_body = Inr (PDict [])\<rparr> empty_world =
     (Inr \<lparr>status = 401, body = PDict [(''error'', PStr ''Unauthorized'')]\<rparr>, empty_world)
   \<and> handle example_env Create_session
        \<lparr>authorization = Some ''Basic abc'', json_body = Inr (PDict [])\<rparr> empty_world =
     (Inr \<lparr>status = 401, body = PDict [(''error'', PStr ''Unauthorized'')]\<rparr>, empty_world)
   \<and> handle example_env (Delete_session_route ''s1'')
        \<lparr>authorization = Some ''Bearer stale-token'', json_body = Inr PNone\<rparr> empty_world =
     (Inr \<lparr>status = 401, body = PDict [(''error'', PStr ''Unauthorized'')]\<rparr>, empty_world)"
proof -
  have a: "authorization \<lparr>authorization = None, json_body = Inr (PDict [])\<rparr> = None" by simp
  have b: "\<not> (\<exists>a b. ''Basic abc'' = a @ ''Bearer '' @ b)"
  proof
    assume "\<exists>a b. ''Basic abc'' = a @ ''Bearer '' @ b"
    then obtain a b where "''Basic abc'' = a @ ''Bearer '' @ b" by blast
    then have "2 \<le> length (split_pieces ''Bearer '' ''Basic abc'')"
      by (intro split_pieces_occurrence) auto
    then show False by simp
  qed
  have c: "bearer_token \<lparr>authorization = Some ''Bearer stale-token'', json_body = Inr PNone\<rparr>
             = Inr ''stale-token''"
    by (simp add: bearer_token_def str_split_def)
  have d: "verify_id_token example_env ''stale-token'' = Inl (ValueError ''Illegal ID token provided'')"
    by (simp add: example_env_def)
  show ?thesis
    using unauthorized_on_every_route [of "\<lparr>authorization = None, json_body = Inr (PDict [])\<rparr>"
            example_env Chat empty_world]
          unauthorized_on_every_route [of "\<lparr>authorization = Some ''Basic abc'', json_body = Inr (PDict [])\<rparr>"
            example_env Create_session empty_world]
          unauthorized_on_every_route [of "\<lparr>authorization = Some ''Bearer stale-token'', json_body = Inr PNone\<rparr>"
            example_env "Delete_session_route ''s1''" empty_world]
          a b c d
    by auto
qed









text \<open>
  C5. The claim fails on the code: an authenticated \<^verbatim>\<open>POST /api/chat\<close> whose JSON
  body is \<^verbatim>\<open>null\<close> has no message and no session id, yet the handler does not
  answer 400: \<^verbatim>\<open>data.get\<close> raises \<^verbatim>\<open>AttributeError\<close> before the guard and outside
  the \<^verbatim>\<open>try\<close> block (the store is left unchanged). On the same body
  \<^verbatim>\<open>create_session\<close>, which reads \<^verbatim>\<open>request.json or {}\<close>, answers 200. For JSON
  object bodies the claim holds (\<open>chat_requires_message_and_session_id\<close>).
\<close>

theorem chat_null_body_raises:
  "chat example_env \<lparr>authorization = Some ''Bearer good-token'', json_body = Inr PNone\<rparr>
     empty_world =
     (Inl (AttributeError (CHR 0x27 # ''NoneType'' @ CHR 0x27 # '' object has no attribute '' @
                           CHR 0x27 # ''get'' @ [CHR 0x27])),
      empty_world)
   \<and> fst (create_session example_env
            \<lparr>authorization = Some ''Bearer good-token'', json_body = Inr PNone\<rparr> empty_world) =
     \<lparr>status = 200,
      body = PDict [(''session_id'', PStr ''auto-id''),
                    (''name'', PStr ''Chat - 2025-01-01 10:00'')]\<rparr>"
  using verify_token_good_header [of "Inr PNone"]
  by (simp add: chat_def good_header_def no_attribute_def create_session_def
        create_session_try_def catching_def jsonify_def Let_def py_or_def dict_get_def
        example_env_simps empty_world_def logged_def)

theorem chat_null_body_raises_witness:
  "fst (chat example_env \<lparr>authorization = Some ''Bearer good-token'', json_body = Inr PNone\<rparr>
          empty_world) \<noteq>
     Inr \<lparr>status = 400,
          body = PDict [(''error'', PStr ''Message and session_id are required'')]\<rparr>"
  using chat_null_body_raises by simp




text \<open>
  C7. An authenticated delete-session request removes the session document under the
  user's id and the given session id and nothing else: every other session document is
  as before, and all messages, those of the deleted session included, are unchanged.
\<close>

theorem delete_removes_only_the_session_document:
  assumes "verify_token (verify_id_token e) req = Some user"
  shows "\<exists>w'. delete_session e session_id req w =
                 (\<lparr>status = 200, body = PDict [(''success'', PBool True)]\<rparr>, w')
              \<and> log w' = log w @ [Delete_session (uid user) session_id]
              \<and> session_docs (db w') =
                   filter (\<lambda>(k, d). k \<noteq> (uid user, session_id)) (session_docs (db w))
              \<and> map_of (session_docs (db w')) (uid user, session_id) = None
              \<and> (\<forall>k. k \<noteq> (uid user, session_id) \<longrightarrow>
                     map_of (session_docs (db w')) k = map_of (session_docs (db w)) k)
              \<and> message_docs (db w') = message_docs (db w)"
  using assms
  by (simp add: delete_session_def delete_session_try_def catching_def jsonify_def Let_def
        logged_def remove_session_def map_of_filter_key)

theorem delete_removes_only_the_session_document_witness:
  "verify_token (verify_id_token example_env) get_request = Some \<lparr>uid = ''alice''\<rparr>
   \<and> (\<exists>w'. delete_session example_env ''s1'' get_request example_world =
               (\<lparr>status = 200, body = PDict [(''success'', PBool True)]\<rparr>, w')
            \<and> log w' = [Delete_session ''alice'' ''s1'']
            \<and> session_docs (db w') =
                 [((''bob'', ''s9''), \<lparr>name = Some (PStr ''Pointers''), created_at = 15\<rparr>),
                  ((''alice'', ''s2''), \<lparr>name = None, created_at = 20\<rparr>)]
            \<and> messages_of (db w') ''alice'' ''s1'' =
                 [\<lparr>role = PStr ''assistant'', content = PStr ''Hello'', timestamp = 7\<rparr>,
                  \<lparr>role = PStr ''user'', content = PStr ''Hi'', timestamp = 3\<rparr>])"
proof -
  have h: "verify_token (verify_id_token example_env) get_request = Some \<lparr>uid = ''alice''\<rparr>"
    by (simp add: get_request_def verify_token_good_header)
  from delete_removes_only_the_session_document [OF h, of "''s1''" example_world]
  obtain w' where w':
    "delete_session example_env ''s1'' get_request example_world =
       (\<lparr>status = 200, body = PDict [(''success'', PBool True)]\<rparr>, w')"
    "log w' = log example_world @ [Delete_session ''alice'' ''s1'']"
    "session_docs (db w') =
       filter (\<lambda>(k, d). k \<noteq> (''alice'', ''s1'')) (session_docs (db example_world))"
    "message_docs (db w') = message_docs (db example_world)"
    by auto
  have "log w' = [Delete_session ''alice'' ''s1'']"
    using w'(2) by (simp add: example_world_def)
  moreover have "session_docs (db w') =
                 [((''bob'', ''s9''), \<lparr>name = Some (PStr ''Pointers''), created_at = 15\<rparr>),
                  ((''alice'', ''s2''), \<lparr>name = None, created_at = 20\<rparr>)]"
    using w'(3) by (simp add: example_world_def)
  moreover have "messages_of (db w') ''alice'' ''s1'' =
                 [\<lparr>role = PStr ''assistant'', content = PStr ''Hello'', timestamp = 7\<rparr>,
                  \<lparr>role = PStr ''user'', content = PStr ''Hi'', timestamp = 3\<rparr>]"
    using w'(4) by (simp add: messages_of_def example_world_def)
  ultimately show ?thesis using h w'(1) by blast
qed


text \<open>
  C8. An authenticated fetch of a session's messages answers 200 with a list of
  \<^verbatim>\<open>{role, content, timestamp}\<close> entries, one for each message document of that
  session of that user and for no other, in non-decreasing timestamp order; the only
  call made is the query, and the store is unchanged.
\<close>

theorem messages_oldest_first:
  assumes "verify_token (verify_id_token e) req = Some user"
  shows "\<exists>msgs. get_session_messages e session_id req w =
                  (\<lparr>status = 200,
                    body = PList (map (\<lambda>m. PDict [(''role'', role m), (''content'', content m),
                                                  (''timestamp'', PTime (timestamp m))]) msgs)\<rparr>,
                   w\<lparr>log := log w @ [Query_messages (uid user) session_id]\<rparr>)
               \<and> mset msgs =
                   mset (map snd (filter (\<lambda>(k, m). k = (uid user, session_id))
                                    (message_docs (db w))))
               \<and> sorted (map timestamp msgs)"
proof -
  let ?msgs = "order_by timestamp (messages_of (db w) (uid user) session_id)"
  have "get_session_messages e session_id req w =
          (\<lparr>status = 200,
            body = PList (map (\<lambda>m. PDict [(''role'', role m), (''content'', content m),
                                          (''timestamp'', PTime (timestamp m))]) ?msgs)\<rparr>,
           w\<lparr>log := log w @ [Query_messages (uid user) session_id]\<rparr>)"
    using assms
    by (simp add: get_session_messages_def get_session_messages_try_def catching_def
          jsonify_def Let_def logged_def to_dict_def)
  moreover have "mset ?msgs =
                   mset (map snd (filter (\<lambda>(k, m). k = (uid user, session_id))
                                    (message_docs (db w))))"
    by (simp add: order_by_def messages_of_def)
  moreover have "sorted (map timestamp ?msgs)"
    by (simp add: order_by_def)
  ultimately show ?thesis by blast
qed

theorem messages_oldest_first_witness:
  "verify_token (verify_id_token example_env) get_request = Some \<lparr>uid = ''alice''\<rparr>
   \<and> get_session_messages example_env ''s1'' get_request example_world =
       (\<lparr>status = 200,
         body = PList [PDict [(''role'', PStr ''user''), (''content'', PStr ''Hi''),
                              (''timestamp'', PTime 3)],
                       PDict [(''role'', PStr ''assistant''), (''content'', PStr ''Hello''),
                              (''timestamp'', PTime 7)]]\<rparr>,
        example_world\<lparr>log := [Query_messages ''alice'' ''s1'']\<rparr>)"
proof -
  have h: "verify_token (verify_id_token example_env) get_request = Some \<lparr>uid = ''alice''\<rparr>"
    by (simp add: get_request_def verify_token_good_header)
  show ?thesis
    using messages_oldest_first [OF h, of "''s1''" example_world] h
    by (simp add: get_session_messages_def get_session_messages_try_def catching_def jsonify_def
        Let_def get_request_def verify_token_good_header messages_of_def example_world_def
        order_by_def to_dict_def logged_def)
qed




text \<open>
  C10. The claim fails on the code: with a JSON array as mode, an authenticated chat
  request with a non-empty message and session id is answered with 500; the lookup
  \<^verbatim>\<open>SYSTEM_PROMPTS.get(mode, ...)\<close> raises \<^verbatim>\<open>TypeError\<close> (a list is unhashable), no
  instruction is used and the model is never called, while the user message has
  already been stored. For every mode that can be looked up the claim holds
  (\<open>system_instruction_by_mode\<close>).
\<close>

theorem chat_list_mode_raises:
  "chat example_env
     \<lparr>authorization = Some ''Bearer good-token'',
      json_body = Inr (PDict [(''message'', PStr ''Why does my loop never end?''),
                              (''session_id'', PStr ''s3''), (''mode'', PList [])])\<rparr>
     empty_world =
     (Inr \<lparr>status = 500,
           body = PDict [(''error'', PStr ''An error occurred.''),
                         (''details'', PStr (''unhashable type: '' @ CHR 0x27 # ''list'' @ [CHR 0x27]))]\<rparr>,
      \<lparr>db = \<lparr>session_docs = [],
             message_docs =
               [((''alice'', ''s3''),
                 \<lparr>role = PStr ''user'', content = PStr ''Why does my loop never end?'',
                  timestamp = 100\<rparr>)]\<rparr>,
       log = [Add_message ''alice'' ''s3''
                \<lparr>role = PStr ''user'', content = PStr ''Why does my loop never end?'',
                 timestamp = 100\<rparr>,
              Query_history ''alice'' ''s3'']\<rparr>)"
  using verify_token_good_header
          [of "Inr (PDict [(''message'', PStr ''Why does my loop never end?''),
                           (''session_id'', PStr ''s3''), (''mode'', PList [])])"]
  by (simp add: good_header_def chat_def chat_try_def catching_def chat_error_def jsonify_def
        Let_def add_message_def history_docs_def logged_def insert_message_def dict_get_def
        empty_world_def example_env_simps)

theorem chat_list_mode_raises_witness:
  "\<forall>c. Generate_content c \<notin> set (log (snd (chat example_env
     \<lparr>authorization = Some ''Bearer good-token'',
      json_body = Inr (PDict [(''message'', PStr ''Why does my loop never end?''),
                              (''session_id'', PStr ''s3''), (''mode'', PList [])])\<rparr>
     empty_world)))"
  using chat_list_mode_raises by simp

end
